theory Spec2Isabelle
  imports Main "HOL-Library.Word" "HOL-Library.Sublist"
begin

section \<open>tun2.c: two cross-connected TUN interfaces\<close>

text \<open>
  The program talks to the kernel through system calls and to the operator through
  stdio. The embedding makes both explicit: every call the program issues is an
  \<open>event\<close> of its trace, in program order, and every answer of the kernel is an input
  of the model (a record of return values and of the memory the kernel filled in).
  A theorem that quantifies over these records holds for every behaviour of the kernel.

  Descriptors, return values and \<open>ssize_t\<close> lengths are \<open>int\<close>: the program compares
  them with 0 and with each other, and the one sum it forms, \<open>nfds\<close>, is a descriptor
  plus one.
\<close>

subsection \<open>Data\<close>

type_synonym byte = "8 word"

text \<open>The \<open>TUNSETIFF\<close> flags named in the source, a bit mask read as the set of its bits.\<close>

datatype tun_flag = IFF_TUN | IFF_TAP | IFF_NO_PI

text \<open>The two fields of \<open>struct ifreq\<close> the program touches.\<close>

record ifreq =
  ifr_name :: string
  ifr_flags :: "tun_flag set"

text \<open>
  Modelled from the spec: the name buffer is of bounded size. The bound is the macro
  \<open>IFNAMSIZ\<close> of \<open>linux/if.h\<close>, which is not part of the source tree; Linux defines
  it as 16. No statement below depends on the value.
\<close>

definition IFNAMSIZ :: nat where
  "IFNAMSIZ = 16"

datatype stream = Stdout | Stderr

datatype arg = ArgInt int | ArgStr string

text \<open>
  What the program does, call by call. A string is a C string without its
  terminating NUL. \<open>Printf\<close> keeps the format and the arguments apart; \<open>Write\<close>
  carries the bytes handed to the kernel (the first \<open>len\<close> bytes of the buffer).
\<close>

datatype event =
    Open string
  | Ioctl_TUNSETIFF int ifreq
  | Close int
  | Perror string
  | Printf string "arg list"
  | Fflush stream
  | Select int "int set"
  | Read int nat
  | Write int "byte list"

subsection \<open>The kernel's answers\<close>

text \<open>
  The answers to the calls of one \<open>tun_alloc\<close>: the value of \<open>open\<close>, the value of
  \<open>ioctl\<close>, and \<open>ifr\<close> as the kernel leaves it.
\<close>

record alloc_env =
  open_ret :: int
  ioctl_ret :: int
  ioctl_ifr :: ifreq

subsection \<open>\<open>tun_alloc\<close> (lines 72 to 96)\<close>

text \<open>
  The result is the returned \<open>int\<close>, the caller's buffer \<open>dev\<close> after the call,
  and the calls made. \<open>strncpy\<close> copies at most \<open>IFNAMSIZ\<close> characters of \<open>dev\<close>.
\<close>

definition tun_alloc :: "string \<Rightarrow> alloc_env \<Rightarrow> int \<times> string \<times> event list" where
  "tun_alloc dev k =
    (let fd = open_ret k;
         t = [Open ''/dev/net/tun'']
     in if fd < 0 then (- 1, dev, t @ [Perror ''open''])
        else
          let ifr = \<lparr>ifr_name = [], ifr_flags = {}\<rparr>;
              ifr = ifr\<lparr>ifr_flags := {IFF_TUN, IFF_NO_PI}\<rparr>;
              ifr = (if dev \<noteq> [] then ifr\<lparr>ifr_name := take IFNAMSIZ dev\<rparr> else ifr);
              t = t @ [Ioctl_TUNSETIFF fd ifr]
          in if ioctl_ret k < 0 then (- 1, dev, t @ [Perror ''ioctl'', Close fd])
             else (fd, ifr_name (ioctl_ifr k), t))"

subsection \<open>The forwarding loop (lines 115 to 155)\<close>

text \<open>
  The kernel's answers during one iteration of \<open>while (1)\<close>: the value of \<open>select\<close>
  and the descriptor set it leaves in \<open>fds\<close>; for the block of lines 134 to 143 the
  value of \<open>read(fd1, ...)\<close>, the bytes the kernel stored at the start of \<open>buf\<close> and
  the value of \<open>write(fd2, ...)\<close>; the same for the block of lines 145 to 154, which
  reads \<open>fd2\<close> and writes \<open>fd1\<close>. An answer to a call the iteration does not make is
  not looked at.
\<close>

record wake =
  select_ret :: int
  select_fds :: "int set"
  read1_ret :: int
  read1_data :: "byte list"
  write2_ret :: int
  read2_ret :: int
  read2_data :: "byte list"
  write1_ret :: int

text \<open>
  \<open>sizeof(buf)\<close> for \<open>unsigned char buf[16384]\<close>, and the effect of the kernel storing
  \<open>data\<close> at the start of the array: the bytes behind them stay, the array keeps its
  size. \<open>read\<close> is asked for at most \<open>sizeof(buf)\<close> bytes; a kernel that stored more
  would write behind the array, which the model does not follow.
\<close>

definition BUFSIZE :: nat where
  "BUFSIZE = 16384"

definition store :: "byte list \<Rightarrow> byte list \<Rightarrow> byte list" where
  "store buf data = take (length buf) (data @ drop (length data) buf)"

text \<open>
  Modelled from the spec: the readiness wait is over a set of handles. In the source
  the set is an \<open>fd_set\<close>, which holds the descriptors from 0 up to, not including,
  the macro \<open>FD_SETSIZE\<close> of \<open>sys/select.h\<close> (not part of the source tree; Linux
  defines it as 1024). \<open>FD_SET\<close> and \<open>FD_ISSET\<close> do not check their argument: on a
  descriptor outside that range they touch memory beside the set, and what the program
  then passes to \<open>select\<close> and reads back is not defined.
\<close>

definition FD_SETSIZE :: int where
  "FD_SETSIZE = 1024"

definition fits_fd_set :: "int \<Rightarrow> bool" where
  "fits_fd_set fd \<longleftrightarrow> 0 \<le> fd \<and> fd < FD_SETSIZE"

text \<open>
  One iteration: the buffer after it and the calls made. The \<open>continue\<close> of line 131
  ends the iteration after \<open>perror\<close>; every other path runs to the end of the body.
  \<open>fds\<close> is read as the set of descriptors whose bit is set, so \<open>loop_body\<close> is the
  program for descriptors that fit an \<open>fd_set\<close> only: every statement about the loop
  below assumes \<open>fits_fd_set fd1\<close> and \<open>fits_fd_set fd2\<close>.
\<close>

definition loop_body :: "int \<Rightarrow> int \<Rightarrow> wake \<Rightarrow> byte list \<Rightarrow> byte list \<times> event list" where
  "loop_body fd1 fd2 w buf =
    (let t = [Fflush Stdout, Fflush Stderr];
         nfds = (if fd2 > fd1 then fd2 else fd1) + 1;
         t = t @ [Select nfds {fd1, fd2}];
         nfds = select_ret w
     in if nfds < 0 then (buf, t @ [Perror ''select''])
        else
          let (buf, t) =
                (if fd1 \<in> select_fds w then
                   let t = t @ [Read fd1 BUFSIZE];
                       buf = store buf (read1_data w);
                       len = read1_ret w
                   in if len < 0 then (buf, t @ [Perror ''read''])
                      else
                        let t = t @ [Printf ''read %d from fd %d\<newline>'' [ArgInt len, ArgInt fd1]];
                            t = t @ [Write fd2 (take (nat len) buf)]
                        in if write2_ret w < 0 then (buf, t @ [Perror ''write''])
                           else (buf, t)
                 else (buf, t));
              (buf, t) =
                (if fd2 \<in> select_fds w then
                   let t = t @ [Read fd2 BUFSIZE];
                       buf = store buf (read2_data w);
                       len = read2_ret w
                   in if len < 0 then (buf, t @ [Perror ''read''])
                      else
                        let t = t @ [Printf ''read %d from fd %d\<newline>'' [ArgInt len, ArgInt fd2]];
                            t = t @ [Write fd1 (take (nat len) buf)]
                        in if write1_ret w < 0 then (buf, t @ [Perror ''write''])
                           else (buf, t)
                 else (buf, t))
          in (buf, t))"

text \<open>
  \<open>while (1)\<close> has no exit. The model runs it for as long as answers of the kernel are
  supplied: one \<open>wake\<close> per iteration, the list being a finite prefix of an endless run.
\<close>

fun forward_loop :: "int \<Rightarrow> int \<Rightarrow> wake list \<Rightarrow> byte list \<Rightarrow> byte list \<times> event list" where
  "forward_loop fd1 fd2 [] buf = (buf, [])"
| "forward_loop fd1 fd2 (w # ws) buf =
    (let (buf, t) = loop_body fd1 fd2 w buf;
         (buf, t') = forward_loop fd1 fd2 ws buf
     in (buf, t @ t'))"

subsection \<open>\<open>main\<close> (lines 98 to 157)\<close>

text \<open>
  A run of the process either has exited with a status, or is still inside the loop
  when the supplied answers are used up.
\<close>

datatype outcome = Exited int | Running

text \<open>
  \<open>k1\<close> and \<open>k2\<close> answer the two allocations, \<open>buf0\<close> is the indeterminate initial
  content of \<open>buf\<close>, \<open>ws\<close> answers the iterations. \<open>argc\<close> and \<open>argv\<close> are not used.
\<close>

definition main :: "alloc_env \<Rightarrow> alloc_env \<Rightarrow> byte list \<Rightarrow> wake list \<Rightarrow> outcome \<times> event list" where
  "main k1 k2 buf0 ws =
    (let dev1 = ''tun%d'';
         dev2 = ''tun%d'';
         (fd1, dev1, t) = tun_alloc dev1 k1
     in if fd1 < 0 then (Exited 1, t)
        else
          let t = t @ [Printf ''Created: %s\<newline>'' [ArgStr dev1]];
              (fd2, dev2, t2) = tun_alloc dev2 k2;
              t = t @ t2
          in if fd2 < 0 then (Exited 1, t)
             else
               let t = t @ [Printf ''Created: %s\<newline>'' [ArgStr dev2]];
                   (buf, t3) = forward_loop fd1 fd2 ws buf0
               in (Running, t @ t3))"

subsection \<open>Reading a trace\<close>


fun writes :: "event list \<Rightarrow> int list" where
  "writes [] = []"
| "writes (Write fd bs # es) = fd # writes es"
| "writes (e # es) = writes es"

fun is_printf :: "event \<Rightarrow> bool" where
  "is_printf (Printf f as) = True"
| "is_printf e = False"

fun is_select :: "event \<Rightarrow> bool" where
  "is_select (Select n fds) = True"
| "is_select e = False"

text \<open>What the operator sees: the notices on \<open>stdout\<close> and the reports of \<open>perror\<close>.\<close>

fun is_diag :: "event \<Rightarrow> bool" where
  "is_diag (Printf f as) = True"
| "is_diag (Perror s) = True"
| "is_diag e = False"

text \<open>
  What a call \<open>write(fd, bs, len)\<close> that returned \<open>r\<close> has transferred: \<open>write\<close>
  returns the number of bytes written, the first \<open>r\<close> of those handed to it, or a
  negative value when it wrote nothing.
\<close>

definition taken :: "int \<Rightarrow> byte list \<Rightarrow> byte list" where
  "taken r bs = (if r < 0 then [] else take (nat r) bs)"

text \<open>The calls only the loop makes: none of them occurs during startup.\<close>

fun in_loop :: "event \<Rightarrow> bool" where
  "in_loop (Fflush s) = True"
| "in_loop (Select n fds) = True"
| "in_loop (Read fd n) = True"
| "in_loop (Write fd bs) = True"
| "in_loop e = False"

text \<open>An allocation fails when the kernel refuses \<open>open\<close> or \<open>ioctl\<close>.\<close>

definition alloc_fails :: "alloc_env \<Rightarrow> bool" where
  "alloc_fails k \<longleftrightarrow> open_ret k < 0 \<or> ioctl_ret k < 0"

text \<open>Concrete answers of the kernel, for the examples.\<close>

definition k_tun0 :: alloc_env where
  "k_tun0 = \<lparr>open_ret = 3, ioctl_ret = 0,
             ioctl_ifr = \<lparr>ifr_name = ''tun0'', ifr_flags = {IFF_TUN, IFF_NO_PI}\<rparr>\<rparr>"

definition k_tun1 :: alloc_env where
  "k_tun1 = \<lparr>open_ret = 4, ioctl_ret = 0,
             ioctl_ifr = \<lparr>ifr_name = ''tun1'', ifr_flags = {IFF_TUN, IFF_NO_PI}\<rparr>\<rparr>"

definition k_no_device :: alloc_env where
  "k_no_device = \<lparr>open_ret = - 1, ioctl_ret = 0,
             ioctl_ifr = \<lparr>ifr_name = [], ifr_flags = {}\<rparr>\<rparr>"

definition k_rejected :: alloc_env where
  "k_rejected = \<lparr>open_ret = 4, ioctl_ret = - 1,
             ioctl_ifr = \<lparr>ifr_name = ''tun%d'', ifr_flags = {IFF_TUN, IFF_NO_PI}\<rparr>\<rparr>"

definition wake_zero :: wake where
  "wake_zero =
    \<lparr>select_ret = 2, select_fds = {3, 4},
     read1_ret = 0, read1_data = [], write2_ret = 0,
     read2_ret = 0, read2_data = [], write1_ret = 0\<rparr>"

definition wake_short :: wake where
  "wake_short =
    \<lparr>select_ret = 1, select_fds = {3},
     read1_ret = 3, read1_data = [1, 2, 3], write2_ret = 1,
     read2_ret = 0, read2_data = [], write1_ret = 0\<rparr>"

definition wake_select_error :: wake where
  "wake_select_error =
    \<lparr>select_ret = - 1, select_fds = {3, 4},
     read1_ret = 3, read1_data = [1, 2, 3], write2_ret = 3,
     read2_ret = 2, read2_data = [9, 8], write1_ret = 2\<rparr>"

definition wake_errors :: wake where
  "wake_errors =
    \<lparr>select_ret = 2, select_fds = {3, 4},
     read1_ret = - 1, read1_data = [], write2_ret = 0,
     read2_ret = 2, read2_data = [9, 8], write1_ret = - 1\<rparr>"

definition wake_errors2 :: wake where
  "wake_errors2 =
    \<lparr>select_ret = 2, select_fds = {3, 4},
     read1_ret = 3, read1_data = [1, 2, 3], write2_ret = - 1,
     read2_ret = - 1, read2_data = [], write1_ret = 0\<rparr>"

definition wake_one :: wake where
  "wake_one =
    \<lparr>select_ret = 1, select_fds = {3},
     read1_ret = 3, read1_data = [1, 2, 3], write2_ret = 3,
     read2_ret = 0, read2_data = [], write1_ret = 0\<rparr>"

definition wake_both :: wake where
  "wake_both =
    \<lparr>select_ret = 2, select_fds = {3, 4},
     read1_ret = 3, read1_data = [1, 2, 3], write2_ret = 3,
     read2_ret = 2, read2_data = [9, 8], write1_ret = 2\<rparr>"

section \<open>Properties\<close>

subsection \<open>Auxiliary facts\<close>

lemma tun_alloc_open_fails:
  "open_ret k < 0 \<Longrightarrow>
   tun_alloc dev k = (- 1, dev, [Open ''/dev/net/tun'', Perror ''open''])"
  by (simp add: tun_alloc_def)

lemma tun_alloc_ioctl_fails:
  "0 \<le> open_ret k \<Longrightarrow> ioctl_ret k < 0 \<Longrightarrow>
   tun_alloc dev k =
     (- 1, dev,
      [Open ''/dev/net/tun'',
       Ioctl_TUNSETIFF (open_ret k)
         \<lparr>ifr_name = take IFNAMSIZ dev, ifr_flags = {IFF_TUN, IFF_NO_PI}\<rparr>,
       Perror ''ioctl'', Close (open_ret k)])"
  by (simp add: tun_alloc_def Let_def)

lemma tun_alloc_ok:
  "\<not> alloc_fails k \<Longrightarrow>
   tun_alloc dev k =
     (open_ret k, ifr_name (ioctl_ifr k),
      [Open ''/dev/net/tun'',
       Ioctl_TUNSETIFF (open_ret k)
         \<lparr>ifr_name = take IFNAMSIZ dev, ifr_flags = {IFF_TUN, IFF_NO_PI}\<rparr>])"
  by (simp add: tun_alloc_def Let_def alloc_fails_def)

lemma tun_alloc_fails_iff: "fst (tun_alloc dev k) < 0 \<longleftrightarrow> alloc_fails k"
  by (simp add: tun_alloc_def Let_def alloc_fails_def)

lemma tun_alloc_fails:
  "alloc_fails k \<Longrightarrow> fst (tun_alloc dev k) = - 1 \<and> fst (snd (tun_alloc dev k)) = dev"
  by (auto simp: tun_alloc_def Let_def alloc_fails_def)

lemma tun_alloc_startup_only: "filter in_loop (snd (snd (tun_alloc dev k))) = []"
  by (simp add: tun_alloc_def Let_def)

lemma main_first_fails:
  "alloc_fails k1 \<Longrightarrow>
   main k1 k2 buf0 ws = (Exited 1, snd (snd (tun_alloc ''tun%d'' k1)))"
  using tun_alloc_fails_iff [of "''tun%d''" k1]
  by (auto simp: main_def Let_def split: prod.splits)

lemma main_second_fails:
  "\<not> alloc_fails k1 \<Longrightarrow> alloc_fails k2 \<Longrightarrow>
   main k1 k2 buf0 ws =
     (Exited 1,
      [Open ''/dev/net/tun'',
       Ioctl_TUNSETIFF (open_ret k1) \<lparr>ifr_name = ''tun%d'', ifr_flags = {IFF_TUN, IFF_NO_PI}\<rparr>,
       Printf ''Created: %s\<newline>'' [ArgStr (ifr_name (ioctl_ifr k1))]]
      @ snd (snd (tun_alloc ''tun%d'' k2)))"
  using tun_alloc_fails_iff [of "''tun%d''" k2] tun_alloc_ok [of k1 "''tun%d''"]
  by (auto simp: main_def Let_def alloc_fails_def IFNAMSIZ_def split: prod.splits)

lemma main_running:
  "\<not> alloc_fails k1 \<Longrightarrow> \<not> alloc_fails k2 \<Longrightarrow>
   main k1 k2 buf0 ws =
     (Running,
      [Open ''/dev/net/tun'',
       Ioctl_TUNSETIFF (open_ret k1) \<lparr>ifr_name = ''tun%d'', ifr_flags = {IFF_TUN, IFF_NO_PI}\<rparr>,
       Printf ''Created: %s\<newline>'' [ArgStr (ifr_name (ioctl_ifr k1))],
       Open ''/dev/net/tun'',
       Ioctl_TUNSETIFF (open_ret k2) \<lparr>ifr_name = ''tun%d'', ifr_flags = {IFF_TUN, IFF_NO_PI}\<rparr>,
       Printf ''Created: %s\<newline>'' [ArgStr (ifr_name (ioctl_ifr k2))]]
      @ snd (forward_loop (open_ret k1) (open_ret k2) ws buf0))"
  using tun_alloc_ok [of k1 "''tun%d''"] tun_alloc_ok [of k2 "''tun%d''"]
  by (auto simp: main_def Let_def alloc_fails_def IFNAMSIZ_def split: prod.splits)


lemma writes_append: "writes (xs @ ys) = writes xs @ writes ys"
  by (induction xs rule: writes.induct) simp_all

lemma store_length: "length (store buf data) = length buf"
  by (simp add: store_def)

lemma take_store: "length data \<le> length buf \<Longrightarrow> take (length data) (store buf data) = data"
  by (simp add: store_def)

lemma loop_body_select_error:
  "select_ret w < 0 \<Longrightarrow>
   loop_body fd1 fd2 w buf =
     (buf, [Fflush Stdout, Fflush Stderr, Select (max fd1 fd2 + 1) {fd1, fd2}, Perror ''select''])"
  by (simp add: loop_body_def Let_def max_def)

lemma loop_body_trace:
  "0 \<le> select_ret w \<Longrightarrow>
   snd (loop_body fd1 fd2 w buf) =
     [Fflush Stdout, Fflush Stderr, Select (max fd1 fd2 + 1) {fd1, fd2}]
     @ (if fd1 \<in> select_fds w then
          Read fd1 BUFSIZE #
          (if read1_ret w < 0 then [Perror ''read'']
           else [Printf ''read %d from fd %d\<newline>'' [ArgInt (read1_ret w), ArgInt fd1],
                 Write fd2 (take (nat (read1_ret w)) (store buf (read1_data w)))]
                @ (if write2_ret w < 0 then [Perror ''write''] else []))
        else [])
     @ (if fd2 \<in> select_fds w then
          Read fd2 BUFSIZE #
          (if read2_ret w < 0 then [Perror ''read'']
           else [Printf ''read %d from fd %d\<newline>'' [ArgInt (read2_ret w), ArgInt fd2],
                 Write fd1 (take (nat (read2_ret w))
                   (store (if fd1 \<in> select_fds w then store buf (read1_data w) else buf)
                      (read2_data w)))]
                @ (if write1_ret w < 0 then [Perror ''write''] else []))
        else [])"
  by (simp add: loop_body_def Let_def max_def split: prod.splits)

lemma loop_body_length: "length (fst (loop_body fd1 fd2 w buf)) = length buf"
  by (simp add: loop_body_def Let_def store_length split: prod.splits)

lemma forward_loop_Cons_fst:
  "fst (forward_loop fd1 fd2 (w # ws) buf) =
   fst (forward_loop fd1 fd2 ws (fst (loop_body fd1 fd2 w buf)))"
  by (simp split: prod.splits)

lemma forward_loop_Cons_snd:
  "snd (forward_loop fd1 fd2 (w # ws) buf) =
   snd (loop_body fd1 fd2 w buf) @ snd (forward_loop fd1 fd2 ws (fst (loop_body fd1 fd2 w buf)))"
  by (simp split: prod.splits)

lemma forward_loop_length: "length (fst (forward_loop fd1 fd2 ws buf)) = length buf"
proof (induction ws arbitrary: buf)
  case Nil
  show ?case by simp
next
  case (Cons w ws)
  show ?case
    unfolding forward_loop_Cons_fst by (simp add: Cons.IH loop_body_length)
qed

lemma forward_loop_append_snd:
  "snd (forward_loop fd1 fd2 (xs @ ys) buf) =
   snd (forward_loop fd1 fd2 xs buf) @
   snd (forward_loop fd1 fd2 ys (fst (forward_loop fd1 fd2 xs buf)))"
proof (induction xs arbitrary: buf)
  case Nil
  show ?case by simp
next
  case (Cons x xs)
  show ?case
    using Cons.IH [of "fst (loop_body fd1 fd2 x buf)"]
    by (simp only: append_Cons forward_loop_Cons_fst forward_loop_Cons_snd append_assoc)
qed

lemma loop_body_writes:
  "0 \<le> select_ret w \<Longrightarrow>
   writes (snd (loop_body fd1 fd2 w buf)) =
     (if fd1 \<in> select_fds w \<and> 0 \<le> read1_ret w then [fd2] else []) @
     (if fd2 \<in> select_fds w \<and> 0 \<le> read2_ret w then [fd1] else [])"
  by (simp add: loop_body_trace writes_append)


lemma loop_body_printfs:
  "0 \<le> select_ret w \<Longrightarrow>
   filter is_printf (snd (loop_body fd1 fd2 w buf)) =
     (if fd1 \<in> select_fds w \<and> 0 \<le> read1_ret w
      then [Printf ''read %d from fd %d\<newline>'' [ArgInt (read1_ret w), ArgInt fd1]] else []) @
     (if fd2 \<in> select_fds w \<and> 0 \<le> read2_ret w
      then [Printf ''read %d from fd %d\<newline>'' [ArgInt (read2_ret w), ArgInt fd2]] else [])"
  by (simp add: loop_body_trace)

lemma loop_body_selects:
  "length (filter is_select (snd (loop_body fd1 fd2 w buf))) = 1"
  by (cases "select_ret w < 0") (simp_all add: loop_body_select_error loop_body_trace)

lemma forward_loop_selects:
  "length (filter is_select (snd (forward_loop fd1 fd2 ws buf))) = length ws"
proof (induction ws arbitrary: buf)
  case Nil
  show ?case by simp
next
  case (Cons w ws)
  show ?case
    unfolding forward_loop_Cons_snd by (simp add: Cons.IH loop_body_selects)
qed

lemma loop_body_starts:
  "take 3 (snd (loop_body fd1 fd2 w buf)) =
   [Fflush Stdout, Fflush Stderr, Select (max fd1 fd2 + 1) {fd1, fd2}]"
  by (cases "select_ret w < 0") (simp_all add: loop_body_select_error loop_body_trace)



lemma take_prefix_append:
  assumes "take n xs = ps" and "length ps = n"
  shows "take n (xs @ ys) = ps"
proof -
  have "n \<le> length xs"
    using assms by (metis length_take min.cobounded1)
  then show ?thesis using assms(1) by simp
qed

lemma loop_body_diags:
  "0 \<le> select_ret w \<Longrightarrow>
   filter is_diag (snd (loop_body fd1 fd2 w buf)) =
     (if fd1 \<in> select_fds w then
        (if read1_ret w < 0 then [Perror ''read'']
         else Printf ''read %d from fd %d\<newline>'' [ArgInt (read1_ret w), ArgInt fd1] #
              (if write2_ret w < 0 then [Perror ''write''] else []))
      else []) @
     (if fd2 \<in> select_fds w then
        (if read2_ret w < 0 then [Perror ''read'']
         else Printf ''read %d from fd %d\<newline>'' [ArgInt (read2_ret w), ArgInt fd2] #
              (if write1_ret w < 0 then [Perror ''write''] else []))
      else [])"
  by (simp add: loop_body_trace)

lemma taken_all: "r = int (length bs) \<Longrightarrow> taken r bs = bs"
  by (simp add: taken_def)

lemma loop_body_forwards_1:
  assumes "length buf = BUFSIZE" and "0 \<le> select_ret w" and "fd1 \<in> select_fds w"
    and "0 \<le> read1_ret w" and "read1_ret w \<le> int BUFSIZE"
    and "length (read1_data w) = nat (read1_ret w)"
  shows "sublist
           [Read fd1 BUFSIZE,
            Printf ''read %d from fd %d\<newline>'' [ArgInt (read1_ret w), ArgInt fd1],
            Write fd2 (read1_data w)]
           (snd (loop_body fd1 fd2 w buf))"
proof -
  have "length (read1_data w) \<le> length buf"
    using assms by simp
  then have "take (nat (read1_ret w)) (store buf (read1_data w)) = read1_data w"
    using take_store [of "read1_data w" buf] assms(6) by simp
  then show ?thesis
    using assms(2,3,4) by (simp add: loop_body_trace sublist_Cons_right)
qed

lemma loop_body_forwards_2:
  assumes "length buf = BUFSIZE" and "0 \<le> select_ret w" and "fd2 \<in> select_fds w"
    and "0 \<le> read2_ret w" and "read2_ret w \<le> int BUFSIZE"
    and "length (read2_data w) = nat (read2_ret w)"
  shows "sublist
           [Read fd2 BUFSIZE,
            Printf ''read %d from fd %d\<newline>'' [ArgInt (read2_ret w), ArgInt fd2],
            Write fd1 (read2_data w)]
           (snd (loop_body fd1 fd2 w buf))"
proof -
  let ?b = "if fd1 \<in> select_fds w then store buf (read1_data w) else buf"
  have "length (read2_data w) \<le> length ?b"
    using assms by (simp add: store_length)
  then have "take (nat (read2_ret w)) (store ?b (read2_data w)) = read2_data w"
    using take_store [of "read2_data w" ?b] assms(6) by simp
  then show ?thesis
    using assms(2,3,4) by (simp add: loop_body_trace sublist_Cons_right sublist_append)
qed

subsection \<open>\<open>tun_alloc\<close>\<close>

text \<open>
  C4. In \<open>tun_alloc\<close>, when the control device was opened (\<open>open\<close> returned a
  descriptor \<open>fd \<ge> 0\<close>) and the \<open>TUNSETIFF\<close> request fails, the function reports the
  failure, closes that very descriptor as its last call, and returns \<open>-1\<close>: the
  partially opened handle is closed before the error result is returned.
\<close>

theorem tun_alloc_ioctl_failure_closes:
  assumes "0 \<le> open_ret k" and "ioctl_ret k < 0"
  shows "tun_alloc dev k =
           (- 1, dev,
            [Open ''/dev/net/tun'',
             Ioctl_TUNSETIFF (open_ret k)
               \<lparr>ifr_name = take IFNAMSIZ dev, ifr_flags = {IFF_TUN, IFF_NO_PI}\<rparr>,
             Perror ''ioctl'', Close (open_ret k)])"
  using assms by (rule tun_alloc_ioctl_fails)

theorem tun_alloc_ioctl_failure_closes_witness:
  "0 \<le> open_ret k_rejected \<and> ioctl_ret k_rejected < 0 \<and>
   tun_alloc ''tun%d'' k_rejected =
     (- 1, ''tun%d'',
      [Open ''/dev/net/tun'',
       Ioctl_TUNSETIFF 4 \<lparr>ifr_name = ''tun%d'', ifr_flags = {IFF_TUN, IFF_NO_PI}\<rparr>,
       Perror ''ioctl'', Close 4])"
  using tun_alloc_ioctl_failure_closes [of k_rejected "''tun%d''"]
  by (simp add: k_rejected_def IFNAMSIZ_def)

text \<open>
  C9. Both kinds of failure of \<open>tun_alloc\<close>, the control device that cannot be opened
  (\<open>ka\<close>) and the configuration request that is rejected (\<open>kb\<close>), give the caller
  the same value \<open>-1\<close> and the same, untouched name buffer, so the caller cannot tell
  them apart; and \<open>main\<close> exits with status 1 in both cases, whether the failing
  allocation is the first or the second.
\<close>

theorem tun_alloc_failures_indistinguishable:
  assumes "open_ret ka < 0" and "0 \<le> open_ret kb" and "ioctl_ret kb < 0"
  shows "fst (tun_alloc dev ka) = - 1 \<and> fst (tun_alloc dev kb) = - 1 \<and>
         fst (snd (tun_alloc dev ka)) = fst (snd (tun_alloc dev kb)) \<and>
         fst (main ka k2 buf0 ws) = Exited 1 \<and> fst (main kb k2 buf0 ws) = Exited 1 \<and>
         (\<not> alloc_fails k1 \<longrightarrow>
            fst (main k1 ka buf0 ws) = Exited 1 \<and> fst (main k1 kb buf0 ws) = Exited 1)"
proof -
  have fa: "alloc_fails ka" and fb: "alloc_fails kb"
    using assms by (simp_all add: alloc_fails_def)
  have "fst (tun_alloc dev ka) = - 1" and "fst (tun_alloc dev kb) = - 1"
    and "fst (snd (tun_alloc dev ka)) = fst (snd (tun_alloc dev kb))"
    using tun_alloc_fails [OF fa, of dev] tun_alloc_fails [OF fb, of dev] by simp_all
  moreover have "fst (main ka k2 buf0 ws) = Exited 1" and "fst (main kb k2 buf0 ws) = Exited 1"
    using fa fb by (simp_all add: main_first_fails)
  moreover have "\<not> alloc_fails k1 \<longrightarrow>
            fst (main k1 ka buf0 ws) = Exited 1 \<and> fst (main k1 kb buf0 ws) = Exited 1"
    using fa fb by (simp add: main_second_fails)
  ultimately show ?thesis by blast
qed

theorem tun_alloc_failures_indistinguishable_witness:
  "open_ret k_no_device < 0 \<and> 0 \<le> open_ret k_rejected \<and> ioctl_ret k_rejected < 0 \<and>
   \<not> alloc_fails k_tun0 \<and>
   fst (tun_alloc ''tun%d'' k_no_device) = - 1 \<and> fst (tun_alloc ''tun%d'' k_rejected) = - 1 \<and>
   fst (main k_no_device k_tun1 (replicate BUFSIZE 0) [wake_both]) = Exited 1 \<and>
   fst (main k_rejected k_tun1 (replicate BUFSIZE 0) [wake_both]) = Exited 1 \<and>
   fst (main k_tun0 k_no_device (replicate BUFSIZE 0) [wake_both]) = Exited 1 \<and>
   fst (main k_tun0 k_rejected (replicate BUFSIZE 0) [wake_both]) = Exited 1"
  using tun_alloc_failures_indistinguishable
    [of k_no_device k_rejected "''tun%d''" k_tun1 "replicate BUFSIZE 0" "[wake_both]" k_tun0]
  by (simp add: k_no_device_def k_rejected_def k_tun0_def alloc_fails_def)

text \<open>
  C10. \<open>tun_alloc\<close> returns a negative value exactly when \<open>open\<close> or \<open>ioctl\<close> failed,
  and then the caller's name buffer is as it was. When it returns a descriptor, the
  buffer holds the name the kernel left in \<open>ifr\<close>; the copy follows the last call the
  function makes (the \<open>ioctl\<close>) and nothing but the \<open>return\<close> comes after it.
\<close>

theorem tun_alloc_name_buffer:
  "(fst (tun_alloc dev k) < 0 \<longleftrightarrow> alloc_fails k) \<and>
   (fst (tun_alloc dev k) < 0 \<longrightarrow> fst (snd (tun_alloc dev k)) = dev) \<and>
   (0 \<le> fst (tun_alloc dev k) \<longrightarrow>
      tun_alloc dev k =
        (open_ret k, ifr_name (ioctl_ifr k),
         [Open ''/dev/net/tun'',
          Ioctl_TUNSETIFF (open_ret k)
            \<lparr>ifr_name = take IFNAMSIZ dev, ifr_flags = {IFF_TUN, IFF_NO_PI}\<rparr>]))"
proof (intro conjI impI)
  show "fst (tun_alloc dev k) < 0 \<longleftrightarrow> alloc_fails k"
    by (rule tun_alloc_fails_iff)
next
  assume "fst (tun_alloc dev k) < 0"
  then have "alloc_fails k" by (simp add: tun_alloc_fails_iff)
  then show "fst (snd (tun_alloc dev k)) = dev" by (simp add: tun_alloc_fails)
next
  assume "0 \<le> fst (tun_alloc dev k)"
  then have "\<not> alloc_fails k" using tun_alloc_fails_iff [of dev k] by simp
  then show "tun_alloc dev k =
        (open_ret k, ifr_name (ioctl_ifr k),
         [Open ''/dev/net/tun'',
          Ioctl_TUNSETIFF (open_ret k)
            \<lparr>ifr_name = take IFNAMSIZ dev, ifr_flags = {IFF_TUN, IFF_NO_PI}\<rparr>])"
    by (rule tun_alloc_ok)
qed

theorem tun_alloc_name_buffer_witness:
  "fst (tun_alloc ''tun%d'' k_no_device) < 0 \<and> fst (snd (tun_alloc ''tun%d'' k_no_device)) = ''tun%d'' \<and>
   fst (tun_alloc ''tun%d'' k_rejected) < 0 \<and> fst (snd (tun_alloc ''tun%d'' k_rejected)) = ''tun%d'' \<and>
   0 \<le> fst (tun_alloc ''tun%d'' k_tun0) \<and>
   tun_alloc ''tun%d'' k_tun0 =
     (3, ''tun0'',
      [Open ''/dev/net/tun'',
       Ioctl_TUNSETIFF 3 \<lparr>ifr_name = ''tun%d'', ifr_flags = {IFF_TUN, IFF_NO_PI}\<rparr>])"
  using tun_alloc_name_buffer [of "''tun%d''" k_no_device]
    tun_alloc_name_buffer [of "''tun%d''" k_rejected]
    tun_alloc_name_buffer [of "''tun%d''" k_tun0]
  by (simp add: k_no_device_def k_rejected_def k_tun0_def alloc_fails_def IFNAMSIZ_def)

subsection \<open>Startup in \<open>main\<close>\<close>

text \<open>
  C2, as the code has it. The process exits with status 1 when either allocation fails.
  When the second fails after the first succeeded, the loop is never entered (no
  \<open>fflush\<close>, \<open>select\<close>, \<open>read\<close> or \<open>write\<close> is issued) and \<open>main\<close> adds no call
  of its own to those of the two allocations: the only \<open>close\<close> the run can contain is
  the one \<open>tun_alloc\<close> issues for the second descriptor after a rejected \<open>ioctl\<close>. The
  first descriptor is not closed by the program; it is left to the end of the process.
\<close>

theorem main_alloc_failure_exits:
  "(alloc_fails k1 \<or> alloc_fails k2 \<longrightarrow> fst (main k1 k2 buf0 ws) = Exited 1) \<and>
   (\<not> alloc_fails k1 \<and> alloc_fails k2 \<longrightarrow>
      filter in_loop (snd (main k1 k2 buf0 ws)) = [] \<and>
      snd (main k1 k2 buf0 ws) =
        [Open ''/dev/net/tun'',
         Ioctl_TUNSETIFF (open_ret k1) \<lparr>ifr_name = ''tun%d'', ifr_flags = {IFF_TUN, IFF_NO_PI}\<rparr>,
         Printf ''Created: %s\<newline>'' [ArgStr (ifr_name (ioctl_ifr k1))]]
        @ snd (snd (tun_alloc ''tun%d'' k2)) \<and>
      (\<forall>fd. Close fd \<in> set (snd (main k1 k2 buf0 ws)) \<longrightarrow>
            fd = open_ret k2 \<and> 0 \<le> open_ret k2 \<and> ioctl_ret k2 < 0))"
proof (intro conjI impI)
  assume "alloc_fails k1 \<or> alloc_fails k2"
  then show "fst (main k1 k2 buf0 ws) = Exited 1"
    using main_first_fails [of k1 k2 buf0 ws] main_second_fails [of k1 k2 buf0 ws]
    by (cases "alloc_fails k1") auto
next
  assume a: "\<not> alloc_fails k1 \<and> alloc_fails k2"
  then show "filter in_loop (snd (main k1 k2 buf0 ws)) = []"
    by (simp add: main_second_fails tun_alloc_startup_only)
  from a show "snd (main k1 k2 buf0 ws) =
        [Open ''/dev/net/tun'',
         Ioctl_TUNSETIFF (open_ret k1) \<lparr>ifr_name = ''tun%d'', ifr_flags = {IFF_TUN, IFF_NO_PI}\<rparr>,
         Printf ''Created: %s\<newline>'' [ArgStr (ifr_name (ioctl_ifr k1))]]
        @ snd (snd (tun_alloc ''tun%d'' k2))"
    by (simp add: main_second_fails)
  show "\<forall>fd. Close fd \<in> set (snd (main k1 k2 buf0 ws)) \<longrightarrow>
            fd = open_ret k2 \<and> 0 \<le> open_ret k2 \<and> ioctl_ret k2 < 0"
  proof (cases "open_ret k2 < 0")
    case True
    then show ?thesis using a by (simp add: main_second_fails tun_alloc_open_fails)
  next
    case False
    then have "0 \<le> open_ret k2" and "ioctl_ret k2 < 0"
      using a by (auto simp: alloc_fails_def)
    then show ?thesis using a by (simp add: main_second_fails tun_alloc_ioctl_fails)
  qed
qed

theorem main_alloc_failure_exits_witness:
  "\<not> alloc_fails k_tun0 \<and> alloc_fails k_rejected \<and> alloc_fails k_no_device \<and>
   fst (main k_no_device k_tun1 (replicate BUFSIZE 0) [wake_both]) = Exited 1 \<and>
   main k_tun0 k_rejected (replicate BUFSIZE 0) [wake_both] =
     (Exited 1,
      [Open ''/dev/net/tun'',
       Ioctl_TUNSETIFF 3 \<lparr>ifr_name = ''tun%d'', ifr_flags = {IFF_TUN, IFF_NO_PI}\<rparr>,
       Printf ''Created: %s\<newline>'' [ArgStr ''tun0''],
       Open ''/dev/net/tun'',
       Ioctl_TUNSETIFF 4 \<lparr>ifr_name = ''tun%d'', ifr_flags = {IFF_TUN, IFF_NO_PI}\<rparr>,
       Perror ''ioctl'', Close 4]) \<and>
   filter in_loop (snd (main k_tun0 k_rejected (replicate BUFSIZE 0) [wake_both])) = []"
  using main_alloc_failure_exits [of k_tun0 k_rejected "replicate BUFSIZE 0" "[wake_both]"]
    main_alloc_failure_exits [of k_no_device k_tun1 "replicate BUFSIZE 0" "[wake_both]"]
  by (simp add: main_def tun_alloc_def Let_def IFNAMSIZ_def alloc_fails_def
      k_tun0_def k_rejected_def k_no_device_def)

text \<open>
  C2 as stated fails: the first allocation yields descriptor 3, the second is rejected,
  the process exits with status 1, and no \<open>close(3)\<close> was issued.
\<close>

theorem main_leaves_first_handle_open:
  "fst (main k_tun0 k_rejected (replicate BUFSIZE 0) [wake_both]) = Exited 1 \<and>
   fst (tun_alloc ''tun%d'' k_tun0) = 3 \<and>
   Close 3 \<notin> set (snd (main k_tun0 k_rejected (replicate BUFSIZE 0) [wake_both]))"
  by (simp add: main_def tun_alloc_def Let_def IFNAMSIZ_def k_tun0_def k_rejected_def)

subsection \<open>The forwarding loop\<close>

text \<open>
  C1, as the code has it. Take a run of the loop on descriptors that fit an \<open>fd_set\<close>,
  starting with a buffer of \<open>BUFSIZE\<close> bytes, and any iteration \<open>w\<close> of it whose
  \<open>select\<close> succeeded, after the iterations \<open>pre\<close> and before the iterations \<open>post\<close>.
  The iteration starts with a buffer \<open>b\<close> of \<open>BUFSIZE\<close> bytes and its calls \<open>t\<close> stand
  in the trace of the run between those of \<open>pre\<close> and those of \<open>post\<close>. The writes of
  the iteration are one to \<open>fd2\<close> if \<open>fd1\<close> was ready and read without error, then one
  to \<open>fd1\<close> if \<open>fd2\<close> was ready and read without error, and no other. If \<open>fd1\<close> is
  ready and its read returns \<open>n\<close> bytes, \<open>0 \<le> n \<le> 16384\<close>, then \<open>t\<close> holds, one
  directly after the other, the read of \<open>fd1\<close>, the read notice, and the write to
  \<open>fd2\<close>, which hands over exactly the bytes read, all of them and unchanged; no other
  call, so no further read of \<open>fd1\<close>, comes between. The bytes are written in full when
  that call returns \<open>n\<close>. The same holds from \<open>fd2\<close> to \<open>fd1\<close>.
\<close>

theorem forward_loop_hands_over:
  assumes "fits_fd_set fd1" and "fits_fd_set fd2"
    and "length buf = BUFSIZE" and "0 \<le> select_ret w"
  shows "\<exists>b t. b = fst (forward_loop fd1 fd2 pre buf) \<and> t = snd (loop_body fd1 fd2 w b) \<and>
           length b = BUFSIZE \<and>
           snd (forward_loop fd1 fd2 (pre @ w # post) buf) =
             snd (forward_loop fd1 fd2 pre buf) @ t @
             snd (forward_loop fd1 fd2 post (fst (loop_body fd1 fd2 w b))) \<and>
           writes t =
             (if fd1 \<in> select_fds w \<and> 0 \<le> read1_ret w then [fd2] else []) @
             (if fd2 \<in> select_fds w \<and> 0 \<le> read2_ret w then [fd1] else []) \<and>
           (fd1 \<in> select_fds w \<and> 0 \<le> read1_ret w \<and> read1_ret w \<le> int BUFSIZE \<and>
            length (read1_data w) = nat (read1_ret w) \<longrightarrow>
            sublist
              [Read fd1 BUFSIZE,
               Printf ''read %d from fd %d\<newline>'' [ArgInt (read1_ret w), ArgInt fd1],
               Write fd2 (read1_data w)] t \<and>
            (write2_ret w = read1_ret w \<longrightarrow>
               taken (write2_ret w) (read1_data w) = read1_data w)) \<and>
           (fd2 \<in> select_fds w \<and> 0 \<le> read2_ret w \<and> read2_ret w \<le> int BUFSIZE \<and>
            length (read2_data w) = nat (read2_ret w) \<longrightarrow>
            sublist
              [Read fd2 BUFSIZE,
               Printf ''read %d from fd %d\<newline>'' [ArgInt (read2_ret w), ArgInt fd2],
               Write fd1 (read2_data w)] t \<and>
            (write1_ret w = read2_ret w \<longrightarrow>
               taken (write1_ret w) (read2_data w) = read2_data w))"
proof -
  let ?b = "fst (forward_loop fd1 fd2 pre buf)"
  let ?t = "snd (loop_body fd1 fd2 w ?b)"
  have len: "length ?b = BUFSIZE"
    using assms(3) by (simp add: forward_loop_length)
  have run: "snd (forward_loop fd1 fd2 (pre @ w # post) buf) =
             snd (forward_loop fd1 fd2 pre buf) @ ?t @
             snd (forward_loop fd1 fd2 post (fst (loop_body fd1 fd2 w ?b)))"
    by (simp only: forward_loop_append_snd forward_loop_Cons_snd)
  have cnt: "writes ?t =
             (if fd1 \<in> select_fds w \<and> 0 \<le> read1_ret w then [fd2] else []) @
             (if fd2 \<in> select_fds w \<and> 0 \<le> read2_ret w then [fd1] else [])"
    using assms(4) by (rule loop_body_writes)
  have one: "fd1 \<in> select_fds w \<and> 0 \<le> read1_ret w \<and> read1_ret w \<le> int BUFSIZE \<and>
            length (read1_data w) = nat (read1_ret w) \<longrightarrow>
            sublist
              [Read fd1 BUFSIZE,
               Printf ''read %d from fd %d\<newline>'' [ArgInt (read1_ret w), ArgInt fd1],
               Write fd2 (read1_data w)] ?t \<and>
            (write2_ret w = read1_ret w \<longrightarrow>
               taken (write2_ret w) (read1_data w) = read1_data w)"
    using loop_body_forwards_1 [OF len assms(4)] taken_all [of "write2_ret w" "read1_data w"]
    by auto
  have two: "fd2 \<in> select_fds w \<and> 0 \<le> read2_ret w \<and> read2_ret w \<le> int BUFSIZE \<and>
            length (read2_data w) = nat (read2_ret w) \<longrightarrow>
            sublist
              [Read fd2 BUFSIZE,
               Printf ''read %d from fd %d\<newline>'' [ArgInt (read2_ret w), ArgInt fd2],
               Write fd1 (read2_data w)] ?t \<and>
            (write1_ret w = read2_ret w \<longrightarrow>
               taken (write1_ret w) (read2_data w) = read2_data w)"
    using loop_body_forwards_2 [OF len assms(4)] taken_all [of "write1_ret w" "read2_data w"]
    by auto
  from len run cnt one two show ?thesis by blast
qed

theorem forward_loop_hands_over_witness:
  "fits_fd_set 3 \<and> fits_fd_set 4 \<and>
   length (replicate BUFSIZE (0 :: byte)) = BUFSIZE \<and> 0 \<le> select_ret wake_both \<and>
   3 \<in> select_fds wake_both \<and> 4 \<in> select_fds wake_both \<and>
   length (read1_data wake_both) = nat (read1_ret wake_both) \<and>
   length (read2_data wake_both) = nat (read2_ret wake_both) \<and>
   write2_ret wake_both = read1_ret wake_both \<and> write1_ret wake_both = read2_ret wake_both \<and>
   writes (snd (loop_body 3 4 wake_both
        (fst (forward_loop 3 4 [wake_select_error] (replicate BUFSIZE 0))))) = [4, 3] \<and>
   sublist
     [Read 3 BUFSIZE, Printf ''read %d from fd %d\<newline>'' [ArgInt 3, ArgInt 3], Write 4 [1, 2, 3]]
     (snd (loop_body 3 4 wake_both
        (fst (forward_loop 3 4 [wake_select_error] (replicate BUFSIZE 0))))) \<and>
   taken (write2_ret wake_both) [1, 2, 3] = [1, 2, 3] \<and>
   sublist
     [Read 4 BUFSIZE, Printf ''read %d from fd %d\<newline>'' [ArgInt 2, ArgInt 4], Write 3 [9, 8]]
     (snd (loop_body 3 4 wake_both
        (fst (forward_loop 3 4 [wake_select_error] (replicate BUFSIZE 0))))) \<and>
   taken (write1_ret wake_both) [9, 8] = [9, 8] \<and>
   snd (forward_loop 3 4 ([wake_select_error] @ wake_both # [wake_one]) (replicate BUFSIZE 0)) =
     [Fflush Stdout, Fflush Stderr, Select 5 {3, 4}, Perror ''select'',
      Fflush Stdout, Fflush Stderr, Select 5 {3, 4},
      Read 3 BUFSIZE, Printf ''read %d from fd %d\<newline>'' [ArgInt 3, ArgInt 3],
      Write 4 [1, 2, 3],
      Read 4 BUFSIZE, Printf ''read %d from fd %d\<newline>'' [ArgInt 2, ArgInt 4],
      Write 3 [9, 8],
      Fflush Stdout, Fflush Stderr, Select 5 {3, 4},
      Read 3 BUFSIZE, Printf ''read %d from fd %d\<newline>'' [ArgInt 3, ArgInt 3],
      Write 4 [1, 2, 3]]"
  using forward_loop_hands_over
    [of 3 4 "replicate BUFSIZE 0" wake_both "[wake_select_error]" "[wake_one]"]
  by (simp add: fits_fd_set_def FD_SETSIZE_def wake_both_def wake_select_error_def wake_one_def
      loop_body_def Let_def store_def BUFSIZE_def taken_def)

text \<open>
  C1 as stated fails: the bytes read are not always written in full. Three bytes are
  read from descriptor 3 and handed to one \<open>write\<close> on descriptor 4. In the first
  iteration that call returns 1, so one byte of the three is written; in the second it
  fails, so none is. Either time the iteration makes no further write.
\<close>

theorem forward_loop_write_not_in_full:
  "fits_fd_set 3 \<and> fits_fd_set 4 \<and>
   read1_ret wake_short = 3 \<and> read1_data wake_short = [1, 2, 3] \<and>
   write2_ret wake_short = 1 \<and>
   snd (loop_body 3 4 wake_short (replicate BUFSIZE 0)) =
     [Fflush Stdout, Fflush Stderr, Select 5 {3, 4},
      Read 3 BUFSIZE, Printf ''read %d from fd %d\<newline>'' [ArgInt 3, ArgInt 3],
      Write 4 [1, 2, 3]] \<and>
   taken (write2_ret wake_short) [1, 2, 3] = [1] \<and>
   read1_ret wake_errors2 = 3 \<and> read1_data wake_errors2 = [1, 2, 3] \<and>
   write2_ret wake_errors2 = - 1 \<and>
   snd (loop_body 3 4 wake_errors2 (replicate BUFSIZE 0)) =
     [Fflush Stdout, Fflush Stderr, Select 5 {3, 4},
      Read 3 BUFSIZE, Printf ''read %d from fd %d\<newline>'' [ArgInt 3, ArgInt 3],
      Write 4 [1, 2, 3], Perror ''write'',
      Read 4 BUFSIZE, Perror ''read''] \<and>
   taken (write2_ret wake_errors2) [1, 2, 3] = []"
  by (simp add: fits_fd_set_def FD_SETSIZE_def loop_body_def Let_def store_def
      wake_short_def wake_errors2_def BUFSIZE_def taken_def)



text \<open>
  C6. No error ends the loop, on descriptors that fit an \<open>fd_set\<close>. A run whose two
  allocations succeeded is still in the loop after any list of answers, with one
  \<open>select\<close> per answer, and an iteration is always followed by the next. A failed
  \<open>select\<close> is logged, nothing is read or written, the buffer is unchanged, and the
  next calls are those of a new wait. A failed read is logged directly after the read
  and that direction writes nothing. A failed write is logged directly after the write.
\<close>

theorem loop_contains_errors:
  assumes "fits_fd_set fd1" and "fits_fd_set fd2"
  shows
  "(\<not> alloc_fails k1 \<and> \<not> alloc_fails k2 \<and>
    fits_fd_set (open_ret k1) \<and> fits_fd_set (open_ret k2) \<longrightarrow>
      fst (main k1 k2 buf0 ws) = Running \<and>
      length (filter is_select (snd (main k1 k2 buf0 ws))) = length ws) \<and>
   length (filter is_select (snd (forward_loop fd1 fd2 ws buf))) = length ws \<and>
   snd (forward_loop fd1 fd2 (w # ws) buf) =
     snd (loop_body fd1 fd2 w buf) @
     snd (forward_loop fd1 fd2 ws (fst (loop_body fd1 fd2 w buf))) \<and>
   (select_ret w < 0 \<longrightarrow>
      loop_body fd1 fd2 w buf =
        (buf, [Fflush Stdout, Fflush Stderr, Select (max fd1 fd2 + 1) {fd1, fd2},
               Perror ''select'']) \<and>
      take 7 (snd (forward_loop fd1 fd2 (w # w' # ws) buf)) =
        [Fflush Stdout, Fflush Stderr, Select (max fd1 fd2 + 1) {fd1, fd2}, Perror ''select'',
         Fflush Stdout, Fflush Stderr, Select (max fd1 fd2 + 1) {fd1, fd2}]) \<and>
   (0 \<le> select_ret w \<and> fd1 \<in> select_fds w \<and> read1_ret w < 0 \<longrightarrow>
      sublist [Read fd1 BUFSIZE, Perror ''read''] (snd (loop_body fd1 fd2 w buf)) \<and>
      writes (snd (loop_body fd1 fd2 w buf)) =
        (if fd2 \<in> select_fds w \<and> 0 \<le> read2_ret w then [fd1] else [])) \<and>
   (0 \<le> select_ret w \<and> fd2 \<in> select_fds w \<and> read2_ret w < 0 \<longrightarrow>
      sublist [Read fd2 BUFSIZE, Perror ''read''] (snd (loop_body fd1 fd2 w buf)) \<and>
      writes (snd (loop_body fd1 fd2 w buf)) =
        (if fd1 \<in> select_fds w \<and> 0 \<le> read1_ret w then [fd2] else [])) \<and>
   (0 \<le> select_ret w \<and> fd1 \<in> select_fds w \<and> 0 \<le> read1_ret w \<and> write2_ret w < 0 \<longrightarrow>
      (\<exists>bs. sublist [Write fd2 bs, Perror ''write''] (snd (loop_body fd1 fd2 w buf)))) \<and>
   (0 \<le> select_ret w \<and> fd2 \<in> select_fds w \<and> 0 \<le> read2_ret w \<and> write1_ret w < 0 \<longrightarrow>
      (\<exists>bs. sublist [Write fd1 bs, Perror ''write''] (snd (loop_body fd1 fd2 w buf))))"
proof (intro conjI impI)
  assume "\<not> alloc_fails k1 \<and> \<not> alloc_fails k2 \<and>
    fits_fd_set (open_ret k1) \<and> fits_fd_set (open_ret k2)"
  then show "fst (main k1 k2 buf0 ws) = Running"
    and "length (filter is_select (snd (main k1 k2 buf0 ws))) = length ws"
    by (simp_all add: main_running forward_loop_selects)
next
  show "length (filter is_select (snd (forward_loop fd1 fd2 ws buf))) = length ws"
    by (rule forward_loop_selects)
next
  show "snd (forward_loop fd1 fd2 (w # ws) buf) =
     snd (loop_body fd1 fd2 w buf) @
     snd (forward_loop fd1 fd2 ws (fst (loop_body fd1 fd2 w buf)))"
    by (rule forward_loop_Cons_snd)
next
  assume "select_ret w < 0"
  then show "loop_body fd1 fd2 w buf =
        (buf, [Fflush Stdout, Fflush Stderr, Select (max fd1 fd2 + 1) {fd1, fd2},
               Perror ''select''])"
    by (rule loop_body_select_error)
next
  assume neg: "select_ret w < 0"
  have "take 3 (snd (forward_loop fd1 fd2 (w' # ws) buf)) =
        [Fflush Stdout, Fflush Stderr, Select (max fd1 fd2 + 1) {fd1, fd2}]"
    unfolding forward_loop_Cons_snd [of fd1 fd2 w' ws buf]
    by (rule take_prefix_append [OF loop_body_starts]) simp
  then show "take 7 (snd (forward_loop fd1 fd2 (w # w' # ws) buf)) =
        [Fflush Stdout, Fflush Stderr, Select (max fd1 fd2 + 1) {fd1, fd2}, Perror ''select'',
         Fflush Stdout, Fflush Stderr, Select (max fd1 fd2 + 1) {fd1, fd2}]"
    unfolding forward_loop_Cons_snd [of fd1 fd2 w "w' # ws" buf]
    using neg by (simp add: loop_body_select_error)
next
  assume a: "0 \<le> select_ret w \<and> fd1 \<in> select_fds w \<and> read1_ret w < 0"
  then show "sublist [Read fd1 BUFSIZE, Perror ''read''] (snd (loop_body fd1 fd2 w buf))"
    by (simp add: loop_body_trace sublist_Cons_right)
  from a show "writes (snd (loop_body fd1 fd2 w buf)) =
        (if fd2 \<in> select_fds w \<and> 0 \<le> read2_ret w then [fd1] else [])"
    by (simp add: loop_body_writes)
next
  assume a: "0 \<le> select_ret w \<and> fd2 \<in> select_fds w \<and> read2_ret w < 0"
  then show "sublist [Read fd2 BUFSIZE, Perror ''read''] (snd (loop_body fd1 fd2 w buf))"
    by (simp add: loop_body_trace sublist_Cons_right sublist_append)
  from a show "writes (snd (loop_body fd1 fd2 w buf)) =
        (if fd1 \<in> select_fds w \<and> 0 \<le> read1_ret w then [fd2] else [])"
    by (simp add: loop_body_writes)
next
  assume a: "0 \<le> select_ret w \<and> fd1 \<in> select_fds w \<and> 0 \<le> read1_ret w \<and> write2_ret w < 0"
  then have "sublist
      [Write fd2 (take (nat (read1_ret w)) (store buf (read1_data w))), Perror ''write'']
      (snd (loop_body fd1 fd2 w buf))"
    by (simp add: loop_body_trace sublist_Cons_right)
  then show "\<exists>bs. sublist [Write fd2 bs, Perror ''write''] (snd (loop_body fd1 fd2 w buf))"
    by blast
next
  assume a: "0 \<le> select_ret w \<and> fd2 \<in> select_fds w \<and> 0 \<le> read2_ret w \<and> write1_ret w < 0"
  then have "sublist
      [Write fd1 (take (nat (read2_ret w))
         (store (if fd1 \<in> select_fds w then store buf (read1_data w) else buf) (read2_data w))),
       Perror ''write'']
      (snd (loop_body fd1 fd2 w buf))"
    by (simp add: loop_body_trace sublist_Cons_right sublist_append)
  then show "\<exists>bs. sublist [Write fd1 bs, Perror ''write''] (snd (loop_body fd1 fd2 w buf))"
    by blast
qed

theorem loop_contains_errors_witness:
  "fits_fd_set 3 \<and> fits_fd_set 4 \<and>
   \<not> alloc_fails k_tun0 \<and> \<not> alloc_fails k_tun1 \<and>
   fits_fd_set (open_ret k_tun0) \<and> fits_fd_set (open_ret k_tun1) \<and>
   fst (main k_tun0 k_tun1 (replicate BUFSIZE 0) [wake_select_error, wake_errors, wake_errors2])
     = Running \<and>
   length (filter is_select
     (snd (main k_tun0 k_tun1 (replicate BUFSIZE 0)
        [wake_select_error, wake_errors, wake_errors2]))) = 3 \<and>
   select_ret wake_select_error < 0 \<and>
   loop_body 3 4 wake_select_error (replicate BUFSIZE 0) =
     (replicate BUFSIZE 0,
      [Fflush Stdout, Fflush Stderr, Select 5 {3, 4}, Perror ''select'']) \<and>
   take 7 (snd (forward_loop 3 4 [wake_select_error, wake_errors, wake_errors2]
     (replicate BUFSIZE 0))) =
     [Fflush Stdout, Fflush Stderr, Select 5 {3, 4}, Perror ''select'',
      Fflush Stdout, Fflush Stderr, Select 5 {3, 4}] \<and>
   0 \<le> select_ret wake_errors \<and> read1_ret wake_errors < 0 \<and> write1_ret wake_errors < 0 \<and>
   snd (loop_body 3 4 wake_errors (replicate BUFSIZE 0)) =
     [Fflush Stdout, Fflush Stderr, Select 5 {3, 4},
      Read 3 BUFSIZE, Perror ''read'',
      Read 4 BUFSIZE, Printf ''read %d from fd %d\<newline>'' [ArgInt 2, ArgInt 4],
      Write 3 [9, 8], Perror ''write''] \<and>
   0 \<le> select_ret wake_errors2 \<and> write2_ret wake_errors2 < 0 \<and> read2_ret wake_errors2 < 0 \<and>
   snd (loop_body 3 4 wake_errors2 (replicate BUFSIZE 0)) =
     [Fflush Stdout, Fflush Stderr, Select 5 {3, 4},
      Read 3 BUFSIZE, Printf ''read %d from fd %d\<newline>'' [ArgInt 3, ArgInt 3],
      Write 4 [1, 2, 3], Perror ''write'',
      Read 4 BUFSIZE, Perror ''read'']"
  using loop_contains_errors
    [where ?k1.0 = k_tun0 and ?k2.0 = k_tun1 and buf0 = "replicate BUFSIZE 0"
       and ws = "[wake_select_error, wake_errors, wake_errors2]"
       and ?fd1.0 = 3 and ?fd2.0 = 4 and buf = "replicate BUFSIZE 0"
       and w = wake_errors and w' = wake_errors2]
    loop_contains_errors
    [where ?k1.0 = k_tun0 and ?k2.0 = k_tun1 and buf0 = "replicate BUFSIZE 0"
       and ws = "[wake_errors2]"
       and ?fd1.0 = 3 and ?fd2.0 = 4 and buf = "replicate BUFSIZE 0"
       and w = wake_select_error and w' = wake_errors]
    loop_contains_errors
    [where ?k1.0 = k_tun0 and ?k2.0 = k_tun1 and buf0 = "replicate BUFSIZE 0"
       and ws = "[]"
       and ?fd1.0 = 3 and ?fd2.0 = 4 and buf = "replicate BUFSIZE 0"
       and w = wake_errors2 and w' = wake_errors]
  by (simp add: fits_fd_set_def FD_SETSIZE_def alloc_fails_def k_tun0_def k_tun1_def wake_select_error_def wake_errors_def
      wake_errors2_def loop_body_def Let_def store_def BUFSIZE_def)

text \<open>
  C3, as the code has it. On descriptors that fit an \<open>fd_set\<close>, a read that returns 0
  from a ready descriptor is not an error: it is followed by the read notice with count
  0, not by \<open>perror\<close>, and then by a write call of zero bytes to the paired descriptor.
\<close>

theorem zero_length_read_forwarded:
  assumes "fits_fd_set fd1" and "fits_fd_set fd2" and "0 \<le> select_ret w"
  shows "(fd1 \<in> select_fds w \<and> read1_ret w = 0 \<longrightarrow>
            sublist
              [Read fd1 BUFSIZE, Printf ''read %d from fd %d\<newline>'' [ArgInt 0, ArgInt fd1],
               Write fd2 []]
              (snd (loop_body fd1 fd2 w buf))) \<and>
         (fd2 \<in> select_fds w \<and> read2_ret w = 0 \<longrightarrow>
            sublist
              [Read fd2 BUFSIZE, Printf ''read %d from fd %d\<newline>'' [ArgInt 0, ArgInt fd2],
               Write fd1 []]
              (snd (loop_body fd1 fd2 w buf)))"
  using assms by (simp add: loop_body_trace sublist_Cons_right sublist_append)

theorem zero_length_read_forwarded_witness:
  "fits_fd_set 3 \<and> fits_fd_set 4 \<and> 0 \<le> select_ret wake_zero \<and> 3 \<in> select_fds wake_zero \<and> read1_ret wake_zero = 0 \<and>
   4 \<in> select_fds wake_zero \<and> read2_ret wake_zero = 0 \<and>
   sublist
     [Read 3 BUFSIZE, Printf ''read %d from fd %d\<newline>'' [ArgInt 0, ArgInt 3], Write 4 []]
     (snd (loop_body 3 4 wake_zero (replicate BUFSIZE 0))) \<and>
   sublist
     [Read 4 BUFSIZE, Printf ''read %d from fd %d\<newline>'' [ArgInt 0, ArgInt 4], Write 3 []]
     (snd (loop_body 3 4 wake_zero (replicate BUFSIZE 0)))"
  using zero_length_read_forwarded [of 3 4 wake_zero "replicate BUFSIZE 0"]
  by (simp add: fits_fd_set_def FD_SETSIZE_def wake_zero_def)

text \<open>
  C3 as stated fails: descriptors 3 and 4 are ready and both reads return 0; the
  iteration calls \<open>write\<close> on the paired descriptor each time (with no bytes).
\<close>

theorem zero_length_read_is_written:
  "read1_ret wake_zero = 0 \<and> read2_ret wake_zero = 0 \<and>
   snd (loop_body 3 4 wake_zero (replicate BUFSIZE 0)) =
     [Fflush Stdout, Fflush Stderr, Select 5 {3, 4},
      Read 3 BUFSIZE, Printf ''read %d from fd %d\<newline>'' [ArgInt 0, ArgInt 3], Write 4 [],
      Read 4 BUFSIZE, Printf ''read %d from fd %d\<newline>'' [ArgInt 0, ArgInt 4], Write 3 []] \<and>
   writes (snd (loop_body 3 4 wake_zero (replicate BUFSIZE 0))) = [4, 3]"
  by (simp add: loop_body_def Let_def store_def wake_zero_def)




text \<open>
  C8, as the code has it. In an iteration on descriptors that fit an \<open>fd_set\<close> whose
  \<open>select\<close> succeeded, the notices printed are exactly one per successful read,
  \<open>read <count> from fd <source>\<close>, directly after that read; there are as many
  notices as writes, so a write has none of its own. All the operator sees of an
  iteration is, for each ready descriptor in turn, either the report of a failed read,
  or the read notice followed, exactly when the write failed, by the report
  \<open>perror("write")\<close>, which stands directly after that write: a write that did not
  fail leaves no output at all.
\<close>

theorem read_notice_only:
  assumes "fits_fd_set fd1" and "fits_fd_set fd2" and "0 \<le> select_ret w"
  shows "filter is_printf (snd (loop_body fd1 fd2 w buf)) =
           (if fd1 \<in> select_fds w \<and> 0 \<le> read1_ret w
            then [Printf ''read %d from fd %d\<newline>'' [ArgInt (read1_ret w), ArgInt fd1]]
            else []) @
           (if fd2 \<in> select_fds w \<and> 0 \<le> read2_ret w
            then [Printf ''read %d from fd %d\<newline>'' [ArgInt (read2_ret w), ArgInt fd2]]
            else []) \<and>
         length (filter is_printf (snd (loop_body fd1 fd2 w buf))) =
           length (writes (snd (loop_body fd1 fd2 w buf))) \<and>
         (fd1 \<in> select_fds w \<and> 0 \<le> read1_ret w \<longrightarrow>
            sublist
              [Read fd1 BUFSIZE,
               Printf ''read %d from fd %d\<newline>'' [ArgInt (read1_ret w), ArgInt fd1]]
              (snd (loop_body fd1 fd2 w buf))) \<and>
         (fd2 \<in> select_fds w \<and> 0 \<le> read2_ret w \<longrightarrow>
            sublist
              [Read fd2 BUFSIZE,
               Printf ''read %d from fd %d\<newline>'' [ArgInt (read2_ret w), ArgInt fd2]]
              (snd (loop_body fd1 fd2 w buf))) \<and>
         filter is_diag (snd (loop_body fd1 fd2 w buf)) =
           (if fd1 \<in> select_fds w then
              (if read1_ret w < 0 then [Perror ''read'']
               else Printf ''read %d from fd %d\<newline>'' [ArgInt (read1_ret w), ArgInt fd1] #
                    (if write2_ret w < 0 then [Perror ''write''] else []))
            else []) @
           (if fd2 \<in> select_fds w then
              (if read2_ret w < 0 then [Perror ''read'']
               else Printf ''read %d from fd %d\<newline>'' [ArgInt (read2_ret w), ArgInt fd2] #
                    (if write1_ret w < 0 then [Perror ''write''] else []))
            else []) \<and>
         (Perror ''write'' \<in> set (snd (loop_body fd1 fd2 w buf)) \<longleftrightarrow>
            fd1 \<in> select_fds w \<and> 0 \<le> read1_ret w \<and> write2_ret w < 0 \<or>
            fd2 \<in> select_fds w \<and> 0 \<le> read2_ret w \<and> write1_ret w < 0) \<and>
         (fd1 \<in> select_fds w \<and> 0 \<le> read1_ret w \<and> write2_ret w < 0 \<longrightarrow>
            (\<exists>bs. sublist [Write fd2 bs, Perror ''write''] (snd (loop_body fd1 fd2 w buf)))) \<and>
         (fd2 \<in> select_fds w \<and> 0 \<le> read2_ret w \<and> write1_ret w < 0 \<longrightarrow>
            (\<exists>bs. sublist [Write fd1 bs, Perror ''write''] (snd (loop_body fd1 fd2 w buf))))"
proof (intro conjI impI)
  show "filter is_printf (snd (loop_body fd1 fd2 w buf)) =
           (if fd1 \<in> select_fds w \<and> 0 \<le> read1_ret w
            then [Printf ''read %d from fd %d\<newline>'' [ArgInt (read1_ret w), ArgInt fd1]]
            else []) @
           (if fd2 \<in> select_fds w \<and> 0 \<le> read2_ret w
            then [Printf ''read %d from fd %d\<newline>'' [ArgInt (read2_ret w), ArgInt fd2]]
            else [])"
    using assms(3) by (rule loop_body_printfs)
next
  show "length (filter is_printf (snd (loop_body fd1 fd2 w buf))) =
           length (writes (snd (loop_body fd1 fd2 w buf)))"
    using assms(3) by (simp add: loop_body_printfs loop_body_writes)
next
  assume "fd1 \<in> select_fds w \<and> 0 \<le> read1_ret w"
  then show "sublist
              [Read fd1 BUFSIZE,
               Printf ''read %d from fd %d\<newline>'' [ArgInt (read1_ret w), ArgInt fd1]]
              (snd (loop_body fd1 fd2 w buf))"
    using assms(3) by (simp add: loop_body_trace sublist_Cons_right)
next
  assume "fd2 \<in> select_fds w \<and> 0 \<le> read2_ret w"
  then show "sublist
              [Read fd2 BUFSIZE,
               Printf ''read %d from fd %d\<newline>'' [ArgInt (read2_ret w), ArgInt fd2]]
              (snd (loop_body fd1 fd2 w buf))"
    using assms(3) by (simp add: loop_body_trace sublist_Cons_right sublist_append)
next
  show "filter is_diag (snd (loop_body fd1 fd2 w buf)) =
           (if fd1 \<in> select_fds w then
              (if read1_ret w < 0 then [Perror ''read'']
               else Printf ''read %d from fd %d\<newline>'' [ArgInt (read1_ret w), ArgInt fd1] #
                    (if write2_ret w < 0 then [Perror ''write''] else []))
            else []) @
           (if fd2 \<in> select_fds w then
              (if read2_ret w < 0 then [Perror ''read'']
               else Printf ''read %d from fd %d\<newline>'' [ArgInt (read2_ret w), ArgInt fd2] #
                    (if write1_ret w < 0 then [Perror ''write''] else []))
            else [])"
    using assms(3) by (rule loop_body_diags)
next
  show "Perror ''write'' \<in> set (snd (loop_body fd1 fd2 w buf)) \<longleftrightarrow>
            fd1 \<in> select_fds w \<and> 0 \<le> read1_ret w \<and> write2_ret w < 0 \<or>
            fd2 \<in> select_fds w \<and> 0 \<le> read2_ret w \<and> write1_ret w < 0"
    using assms(3) by (auto simp: loop_body_trace)
next
  assume "fd1 \<in> select_fds w \<and> 0 \<le> read1_ret w \<and> write2_ret w < 0"
  then have "sublist
      [Write fd2 (take (nat (read1_ret w)) (store buf (read1_data w))), Perror ''write'']
      (snd (loop_body fd1 fd2 w buf))"
    using assms(3) by (simp add: loop_body_trace sublist_Cons_right)
  then show "\<exists>bs. sublist [Write fd2 bs, Perror ''write''] (snd (loop_body fd1 fd2 w buf))"
    by blast
next
  assume "fd2 \<in> select_fds w \<and> 0 \<le> read2_ret w \<and> write1_ret w < 0"
  then have "sublist
      [Write fd1 (take (nat (read2_ret w))
         (store (if fd1 \<in> select_fds w then store buf (read1_data w) else buf) (read2_data w))),
       Perror ''write'']
      (snd (loop_body fd1 fd2 w buf))"
    using assms(3) by (simp add: loop_body_trace sublist_Cons_right sublist_append)
  then show "\<exists>bs. sublist [Write fd1 bs, Perror ''write''] (snd (loop_body fd1 fd2 w buf))"
    by blast
qed

theorem read_notice_only_witness:
  "fits_fd_set 3 \<and> fits_fd_set 4 \<and>
   0 \<le> select_ret wake_both \<and> 3 \<in> select_fds wake_both \<and> 4 \<in> select_fds wake_both \<and>
   0 \<le> read1_ret wake_both \<and> 0 \<le> read2_ret wake_both \<and>
   filter is_printf (snd (loop_body 3 4 wake_both (replicate BUFSIZE 0))) =
     [Printf ''read %d from fd %d\<newline>'' [ArgInt 3, ArgInt 3],
      Printf ''read %d from fd %d\<newline>'' [ArgInt 2, ArgInt 4]] \<and>
   sublist [Read 3 BUFSIZE, Printf ''read %d from fd %d\<newline>'' [ArgInt 3, ArgInt 3]]
     (snd (loop_body 3 4 wake_both (replicate BUFSIZE 0))) \<and>
   sublist [Read 4 BUFSIZE, Printf ''read %d from fd %d\<newline>'' [ArgInt 2, ArgInt 4]]
     (snd (loop_body 3 4 wake_both (replicate BUFSIZE 0))) \<and>
   filter is_diag (snd (loop_body 3 4 wake_both (replicate BUFSIZE 0))) =
     [Printf ''read %d from fd %d\<newline>'' [ArgInt 3, ArgInt 3],
      Printf ''read %d from fd %d\<newline>'' [ArgInt 2, ArgInt 4]] \<and>
   Perror ''write'' \<notin> set (snd (loop_body 3 4 wake_both (replicate BUFSIZE 0))) \<and>
   0 \<le> select_ret wake_errors2 \<and> 3 \<in> select_fds wake_errors2 \<and>
   0 \<le> read1_ret wake_errors2 \<and> write2_ret wake_errors2 < 0 \<and>
   filter is_diag (snd (loop_body 3 4 wake_errors2 (replicate BUFSIZE 0))) =
     [Printf ''read %d from fd %d\<newline>'' [ArgInt 3, ArgInt 3], Perror ''write'',
      Perror ''read''] \<and>
   (\<exists>bs. sublist [Write 4 bs, Perror ''write'']
      (snd (loop_body 3 4 wake_errors2 (replicate BUFSIZE 0)))) \<and>
   0 \<le> select_ret wake_errors \<and> 4 \<in> select_fds wake_errors \<and>
   0 \<le> read2_ret wake_errors \<and> write1_ret wake_errors < 0 \<and>
   (\<exists>bs. sublist [Write 3 bs, Perror ''write'']
      (snd (loop_body 3 4 wake_errors (replicate BUFSIZE 0))))"
  using read_notice_only [of 3 4 wake_both "replicate BUFSIZE 0"]
    read_notice_only [of 3 4 wake_errors2 "replicate BUFSIZE 0"]
    read_notice_only [of 3 4 wake_errors "replicate BUFSIZE 0"]
  by (simp add: fits_fd_set_def FD_SETSIZE_def wake_both_def wake_errors2_def wake_errors_def)

text \<open>
  C8 as stated fails: three bytes read from descriptor 3 are written to descriptor 4;
  the only notice is the one of the read, and no notice names descriptor 4.
\<close>

theorem write_emits_no_notice:
  "snd (loop_body 3 4 wake_one (replicate BUFSIZE 0)) =
     [Fflush Stdout, Fflush Stderr, Select 5 {3, 4},
      Read 3 BUFSIZE, Printf ''read %d from fd %d\<newline>'' [ArgInt 3, ArgInt 3],
      Write 4 [1, 2, 3]] \<and>
   writes (snd (loop_body 3 4 wake_one (replicate BUFSIZE 0))) = [4] \<and>
   (\<nexists>f as. Printf f as \<in> set (snd (loop_body 3 4 wake_one (replicate BUFSIZE 0))) \<and>
      ArgInt 4 \<in> set as)"
  by (simp add: loop_body_def Let_def store_def wake_one_def BUFSIZE_def)

end
